theory Spec2Isabelle
  imports Main
begin

section \<open>The OpenCL link stubs of \<^verbatim>\<open>opencl_stub.c\<close>\<close>

text \<open>
  The translation unit \<^verbatim>\<open>libs/recipes/llamacpp_android/opencl_stub.c\<close> consists of
  35 function definitions of the shape \<^verbatim>\<open>void clName() {}\<close>: return type
  \<^verbatim>\<open>void\<close>, an unspecified parameter list, an empty body. Apart from the
  include of \<^verbatim>\<open>stdlib.h\<close>, nothing else is in the file: no global variable, no type.
\<close>

subsection \<open>Calls\<close>

text \<open>
  A C function call is embedded as a state transformer. The program state is a type
  parameter \<open>'s\<close>: it stands for everything a call could touch (globals, heap, the
  objects reachable from pointer arguments). The arguments are a list of any length over
  a type parameter \<open>'a\<close>, since the empty parameter list \<^verbatim>\<open>()\<close> accepts whatever the
  caller passes. The result is \<open>Some (v, s')\<close> when the call returns \<open>v\<close> in state
  \<open>s'\<close>, and \<open>None\<close> when it does not return normally (an error, a trap, or no return
  at all). A \<^verbatim>\<open>void\<close> function returns \<open>()\<close>.
\<close>

type_synonym ('a, 's) stub = "'a list \<Rightarrow> 's \<Rightarrow> (unit \<times> 's) option"

subsection \<open>The 35 function definitions, in source order (lines 6 to 40)\<close>

definition clBuildProgram :: "('a, 's) stub" where
  "clBuildProgram args s = Some ((), s)"

definition clCreateBuffer :: "('a, 's) stub" where
  "clCreateBuffer args s = Some ((), s)"

definition clCreateCommandQueue :: "('a, 's) stub" where
  "clCreateCommandQueue args s = Some ((), s)"

definition clCreateContext :: "('a, 's) stub" where
  "clCreateContext args s = Some ((), s)"

definition clCreateImage :: "('a, 's) stub" where
  "clCreateImage args s = Some ((), s)"

definition clCreateKernel :: "('a, 's) stub" where
  "clCreateKernel args s = Some ((), s)"

definition clCreateProgramWithSource :: "('a, 's) stub" where
  "clCreateProgramWithSource args s = Some ((), s)"

definition clCreateSubBuffer :: "('a, 's) stub" where
  "clCreateSubBuffer args s = Some ((), s)"

definition clEnqueueBarrierWithWaitList :: "('a, 's) stub" where
  "clEnqueueBarrierWithWaitList args s = Some ((), s)"

definition clEnqueueCopyBuffer :: "('a, 's) stub" where
  "clEnqueueCopyBuffer args s = Some ((), s)"

definition clEnqueueFillBuffer :: "('a, 's) stub" where
  "clEnqueueFillBuffer args s = Some ((), s)"

definition clEnqueueMarkerWithWaitList :: "('a, 's) stub" where
  "clEnqueueMarkerWithWaitList args s = Some ((), s)"

definition clEnqueueNDRangeKernel :: "('a, 's) stub" where
  "clEnqueueNDRangeKernel args s = Some ((), s)"

definition clEnqueueReadBuffer :: "('a, 's) stub" where
  "clEnqueueReadBuffer args s = Some ((), s)"

definition clEnqueueWriteBuffer :: "('a, 's) stub" where
  "clEnqueueWriteBuffer args s = Some ((), s)"

definition clFinish :: "('a, 's) stub" where
  "clFinish args s = Some ((), s)"

definition clFlush :: "('a, 's) stub" where
  "clFlush args s = Some ((), s)"

definition clGetDeviceIDs :: "('a, 's) stub" where
  "clGetDeviceIDs args s = Some ((), s)"

definition clGetDeviceInfo :: "('a, 's) stub" where
  "clGetDeviceInfo args s = Some ((), s)"

definition clGetEventProfilingInfo :: "('a, 's) stub" where
  "clGetEventProfilingInfo args s = Some ((), s)"

definition clGetKernelInfo :: "('a, 's) stub" where
  "clGetKernelInfo args s = Some ((), s)"

definition clGetKernelSubGroupInfo :: "('a, 's) stub" where
  "clGetKernelSubGroupInfo args s = Some ((), s)"

definition clGetKernelWorkGroupInfo :: "('a, 's) stub" where
  "clGetKernelWorkGroupInfo args s = Some ((), s)"

definition clGetPlatformIDs :: "('a, 's) stub" where
  "clGetPlatformIDs args s = Some ((), s)"

definition clGetPlatformInfo :: "('a, 's) stub" where
  "clGetPlatformInfo args s = Some ((), s)"

definition clGetProgramBuildInfo :: "('a, 's) stub" where
  "clGetProgramBuildInfo args s = Some ((), s)"

definition clReleaseCommandQueue :: "('a, 's) stub" where
  "clReleaseCommandQueue args s = Some ((), s)"

definition clReleaseContext :: "('a, 's) stub" where
  "clReleaseContext args s = Some ((), s)"

definition clReleaseEvent :: "('a, 's) stub" where
  "clReleaseEvent args s = Some ((), s)"

definition clReleaseKernel :: "('a, 's) stub" where
  "clReleaseKernel args s = Some ((), s)"

definition clReleaseMemObject :: "('a, 's) stub" where
  "clReleaseMemObject args s = Some ((), s)"

definition clReleaseProgram :: "('a, 's) stub" where
  "clReleaseProgram args s = Some ((), s)"

definition clSetKernelArg :: "('a, 's) stub" where
  "clSetKernelArg args s = Some ((), s)"

definition clWaitForEvents :: "('a, 's) stub" where
  "clWaitForEvents args s = Some ((), s)"

definition clGetExtensionFunctionAddressForPlatform :: "('a, 's) stub" where
  "clGetExtensionFunctionAddressForPlatform args s = Some ((), s)"

subsection \<open>The translation unit as the linker sees it\<close>

text \<open>The C types that matter here: what a function is declared to return.\<close>

datatype c_type = Void | Integer | Pointer c_type

text \<open>
  One external function definition: the symbol it exports, its declared return type and
  its body.
\<close>

record ('a, 's) fun_def =
  sym_name :: string
  ret_type :: c_type
  impl :: "('a, 's) stub"

definition translation_unit :: "('a, 's) fun_def list" where
  "translation_unit = [
     \<lparr>sym_name = ''clBuildProgram'', ret_type = Void, impl = clBuildProgram\<rparr>,
     \<lparr>sym_name = ''clCreateBuffer'', ret_type = Void, impl = clCreateBuffer\<rparr>,
     \<lparr>sym_name = ''clCreateCommandQueue'', ret_type = Void, impl = clCreateCommandQueue\<rparr>,
     \<lparr>sym_name = ''clCreateContext'', ret_type = Void, impl = clCreateContext\<rparr>,
     \<lparr>sym_name = ''clCreateImage'', ret_type = Void, impl = clCreateImage\<rparr>,
     \<lparr>sym_name = ''clCreateKernel'', ret_type = Void, impl = clCreateKernel\<rparr>,
     \<lparr>sym_name = ''clCreateProgramWithSource'', ret_type = Void, impl = clCreateProgramWithSource\<rparr>,
     \<lparr>sym_name = ''clCreateSubBuffer'', ret_type = Void, impl = clCreateSubBuffer\<rparr>,
     \<lparr>sym_name = ''clEnqueueBarrierWithWaitList'', ret_type = Void, impl = clEnqueueBarrierWithWaitList\<rparr>,
     \<lparr>sym_name = ''clEnqueueCopyBuffer'', ret_type = Void, impl = clEnqueueCopyBuffer\<rparr>,
     \<lparr>sym_name = ''clEnqueueFillBuffer'', ret_type = Void, impl = clEnqueueFillBuffer\<rparr>,
     \<lparr>sym_name = ''clEnqueueMarkerWithWaitList'', ret_type = Void, impl = clEnqueueMarkerWithWaitList\<rparr>,
     \<lparr>sym_name = ''clEnqueueNDRangeKernel'', ret_type = Void, impl = clEnqueueNDRangeKernel\<rparr>,
     \<lparr>sym_name = ''clEnqueueReadBuffer'', ret_type = Void, impl = clEnqueueReadBuffer\<rparr>,
     \<lparr>sym_name = ''clEnqueueWriteBuffer'', ret_type = Void, impl = clEnqueueWriteBuffer\<rparr>,
     \<lparr>sym_name = ''clFinish'', ret_type = Void, impl = clFinish\<rparr>,
     \<lparr>sym_name = ''clFlush'', ret_type = Void, impl = clFlush\<rparr>,
     \<lparr>sym_name = ''clGetDeviceIDs'', ret_type = Void, impl = clGetDeviceIDs\<rparr>,
     \<lparr>sym_name = ''clGetDeviceInfo'', ret_type = Void, impl = clGetDeviceInfo\<rparr>,
     \<lparr>sym_name = ''clGetEventProfilingInfo'', ret_type = Void, impl = clGetEventProfilingInfo\<rparr>,
     \<lparr>sym_name = ''clGetKernelInfo'', ret_type = Void, impl = clGetKernelInfo\<rparr>,
     \<lparr>sym_name = ''clGetKernelSubGroupInfo'', ret_type = Void, impl = clGetKernelSubGroupInfo\<rparr>,
     \<lparr>sym_name = ''clGetKernelWorkGroupInfo'', ret_type = Void, impl = clGetKernelWorkGroupInfo\<rparr>,
     \<lparr>sym_name = ''clGetPlatformIDs'', ret_type = Void, impl = clGetPlatformIDs\<rparr>,
     \<lparr>sym_name = ''clGetPlatformInfo'', ret_type = Void, impl = clGetPlatformInfo\<rparr>,
     \<lparr>sym_name = ''clGetProgramBuildInfo'', ret_type = Void, impl = clGetProgramBuildInfo\<rparr>,
     \<lparr>sym_name = ''clReleaseCommandQueue'', ret_type = Void, impl = clReleaseCommandQueue\<rparr>,
     \<lparr>sym_name = ''clReleaseContext'', ret_type = Void, impl = clReleaseContext\<rparr>,
     \<lparr>sym_name = ''clReleaseEvent'', ret_type = Void, impl = clReleaseEvent\<rparr>,
     \<lparr>sym_name = ''clReleaseKernel'', ret_type = Void, impl = clReleaseKernel\<rparr>,
     \<lparr>sym_name = ''clReleaseMemObject'', ret_type = Void, impl = clReleaseMemObject\<rparr>,
     \<lparr>sym_name = ''clReleaseProgram'', ret_type = Void, impl = clReleaseProgram\<rparr>,
     \<lparr>sym_name = ''clSetKernelArg'', ret_type = Void, impl = clSetKernelArg\<rparr>,
     \<lparr>sym_name = ''clWaitForEvents'', ret_type = Void, impl = clWaitForEvents\<rparr>,
     \<lparr>sym_name = ''clGetExtensionFunctionAddressForPlatform'', ret_type = Void, impl = clGetExtensionFunctionAddressForPlatform\<rparr>]"

text \<open>Resolving a symbol reference against the definitions of the file.\<close>

definition lookup_symbol :: "string \<Rightarrow> ('a, 's) fun_def option" where
  "lookup_symbol = map_of (map (\<lambda>d. (sym_name d, d)) translation_unit)"

text \<open>
  Two calls in sequence, as in \<^verbatim>\<open>f(...); g(...);\<close>: the second runs in the state
  the first one left, and only when the first one returned.
\<close>

definition seq_calls ::
  "('s \<Rightarrow> (unit \<times> 's) option) \<Rightarrow> ('s \<Rightarrow> (unit \<times> 's) option) \<Rightarrow> 's \<Rightarrow> (unit \<times> 's) option" where
  "seq_calls p q s = (case p s of None \<Rightarrow> None | Some (_, s') \<Rightarrow> q s')"

section \<open>Properties of the stubs\<close>

subsection \<open>Shared facts\<close>

lemmas stub_defs =
  clBuildProgram_def clCreateBuffer_def clCreateCommandQueue_def clCreateContext_def
  clCreateImage_def clCreateKernel_def clCreateProgramWithSource_def clCreateSubBuffer_def
  clEnqueueBarrierWithWaitList_def clEnqueueCopyBuffer_def clEnqueueFillBuffer_def
  clEnqueueMarkerWithWaitList_def clEnqueueNDRangeKernel_def clEnqueueReadBuffer_def
  clEnqueueWriteBuffer_def clFinish_def clFlush_def clGetDeviceIDs_def clGetDeviceInfo_def
  clGetEventProfilingInfo_def clGetKernelInfo_def clGetKernelSubGroupInfo_def
  clGetKernelWorkGroupInfo_def clGetPlatformIDs_def clGetPlatformInfo_def
  clGetProgramBuildInfo_def clReleaseCommandQueue_def clReleaseContext_def
  clReleaseEvent_def clReleaseKernel_def clReleaseMemObject_def clReleaseProgram_def
  clSetKernelArg_def clWaitForEvents_def clGetExtensionFunctionAddressForPlatform_def

lemma stub_returns_same_state:
  "d \<in> set translation_unit \<Longrightarrow> impl d args s = Some ((), s)"
  unfolding translation_unit_def by (auto simp: stub_defs)

lemma stub_declared_void:
  "d \<in> set translation_unit \<Longrightarrow> ret_type d = Void"
  unfolding translation_unit_def by auto

lemma symbol_names:
  "map sym_name translation_unit =
    [''clBuildProgram'', ''clCreateBuffer'', ''clCreateCommandQueue'', ''clCreateContext'',
     ''clCreateImage'', ''clCreateKernel'', ''clCreateProgramWithSource'',
     ''clCreateSubBuffer'', ''clEnqueueBarrierWithWaitList'', ''clEnqueueCopyBuffer'',
     ''clEnqueueFillBuffer'', ''clEnqueueMarkerWithWaitList'', ''clEnqueueNDRangeKernel'',
     ''clEnqueueReadBuffer'', ''clEnqueueWriteBuffer'', ''clFinish'', ''clFlush'',
     ''clGetDeviceIDs'', ''clGetDeviceInfo'', ''clGetEventProfilingInfo'', ''clGetKernelInfo'',
     ''clGetKernelSubGroupInfo'', ''clGetKernelWorkGroupInfo'', ''clGetPlatformIDs'',
     ''clGetPlatformInfo'', ''clGetProgramBuildInfo'', ''clReleaseCommandQueue'',
     ''clReleaseContext'', ''clReleaseEvent'', ''clReleaseKernel'', ''clReleaseMemObject'',
     ''clReleaseProgram'', ''clSetKernelArg'', ''clWaitForEvents'',
     ''clGetExtensionFunctionAddressForPlatform'']"
  unfolding translation_unit_def by simp

lemma distinct_symbol_names: "distinct (map sym_name translation_unit)"
  unfolding symbol_names by simp

lemma dom_lookup_symbol:
  "dom (lookup_symbol :: string \<Rightarrow> ('a, 's) fun_def option) =
    set (map sym_name (translation_unit :: ('a, 's) fun_def list))"
  unfolding lookup_symbol_def by (simp add: dom_map_of_conv_image_fst image_image)

lemma lookup_symbol_SomeD:
  assumes "lookup_symbol n = Some d"
  shows "d \<in> set translation_unit \<and> sym_name d = n"
proof -
  from assms have "(n, d) \<in> set (map (\<lambda>d. (sym_name d, d)) translation_unit)"
    unfolding lookup_symbol_def by (rule map_of_SomeD)
  then show ?thesis by auto
qed

lemma seq_calls_stubs:
  assumes "d \<in> set translation_unit" and "e \<in> set translation_unit"
  shows "seq_calls (impl d a) (impl e b) s = Some ((), s)"
  using assms by (simp add: seq_calls_def stub_returns_same_state)

subsection \<open>Frame: a call changes nothing\<close>

text \<open>
  C1. For every function defined in the file, every argument list and every program
  state, the call returns and the state after it is the state before it. The state type
  is arbitrary, so this covers every global, every field and every object reachable from
  an argument.
\<close>

theorem stub_call_frame:
  assumes "d \<in> set translation_unit"
  shows "map_option snd (impl d args s) = Some s"
  using assms by (simp add: stub_returns_same_state)

theorem stub_call_frame_witness:
  "\<lparr>sym_name = ''clEnqueueWriteBuffer'', ret_type = Void, impl = clEnqueueWriteBuffer\<rparr>
      \<in> set (translation_unit :: (int, nat list) fun_def list)
   \<and> map_option snd (clEnqueueWriteBuffer [3, 0, 4096 :: int] [10, 20, 30 :: nat]) = Some [10, 20, 30]"
proof -
  have h: "\<lparr>sym_name = ''clEnqueueWriteBuffer'', ret_type = Void, impl = clEnqueueWriteBuffer\<rparr>
      \<in> set (translation_unit :: (int, nat list) fun_def list)"
    by (simp add: translation_unit_def)
  show ?thesis
    using h stub_call_frame [OF h, of "[3, 0, 4096]" "[10, 20, 30]"] by simp
qed

subsection \<open>No failure\<close>

text \<open>
  C2. No call of a stub fails: for every function of the file, every argument list and
  every state, the result is never the failure value \<open>None\<close>; it is the success case.
\<close>

theorem stub_call_succeeds:
  assumes "d \<in> set translation_unit"
  shows "impl d args s \<noteq> None"
  using assms by (simp add: stub_returns_same_state)

theorem stub_call_succeeds_witness:
  "\<lparr>sym_name = ''clBuildProgram'', ret_type = Void, impl = clBuildProgram\<rparr>
      \<in> set (translation_unit :: (string, nat) fun_def list)
   \<and> clBuildProgram [''-cl-std=CL2.0''] (0 :: nat) \<noteq> None"
proof -
  have h: "\<lparr>sym_name = ''clBuildProgram'', ret_type = Void, impl = clBuildProgram\<rparr>
      \<in> set (translation_unit :: (string, nat) fun_def list)"
    by (simp add: translation_unit_def)
  show ?thesis
    using h stub_call_succeeds [OF h, of "[''-cl-std=CL2.0'']" 0] by simp
qed

subsection \<open>Termination\<close>

text \<open>
  C3. Every call of a stub returns: each function of the file is defined outright,
  without recursion, loop or case distinction, and for every argument list (of any
  length) and every state the call yields a result and a final state.
\<close>

theorem stub_call_returns:
  assumes "d \<in> set translation_unit"
  shows "\<exists>r s'. impl d args s = Some (r, s')"
  using assms by (simp add: stub_returns_same_state)

theorem stub_call_returns_witness:
  "\<lparr>sym_name = ''clFinish'', ret_type = Void, impl = clFinish\<rparr>
      \<in> set (translation_unit :: (int, bool \<times> int) fun_def list)
   \<and> (\<exists>r s'. clFinish ([] :: int list) (True, 12 :: int) = Some (r, s'))"
proof -
  have h: "\<lparr>sym_name = ''clFinish'', ret_type = Void, impl = clFinish\<rparr>
      \<in> set (translation_unit :: (int, bool \<times> int) fun_def list)"
    by (simp add: translation_unit_def)
  show ?thesis
    using h stub_call_returns [OF h, of "[]" "(True, 12)"] by simp
qed

subsection \<open>The exported symbols\<close>

text \<open>
  C4. The symbols the file defines are exactly the 35 OpenCL names below, compared
  character by character (so case matters); none is defined twice; and every one of
  them resolves to a definition of that name which can be called.
\<close>

theorem defined_symbols_exact:
  "dom (lookup_symbol :: string \<Rightarrow> ('a, 's) fun_def option) =
      {''clBuildProgram'', ''clCreateBuffer'', ''clCreateCommandQueue'', ''clCreateContext'',
       ''clCreateImage'', ''clCreateKernel'', ''clCreateProgramWithSource'',
       ''clCreateSubBuffer'', ''clEnqueueBarrierWithWaitList'', ''clEnqueueCopyBuffer'',
       ''clEnqueueFillBuffer'', ''clEnqueueMarkerWithWaitList'', ''clEnqueueNDRangeKernel'',
       ''clEnqueueReadBuffer'', ''clEnqueueWriteBuffer'', ''clFinish'', ''clFlush'',
       ''clGetDeviceIDs'', ''clGetDeviceInfo'', ''clGetEventProfilingInfo'',
       ''clGetKernelInfo'', ''clGetKernelSubGroupInfo'', ''clGetKernelWorkGroupInfo'',
       ''clGetPlatformIDs'', ''clGetPlatformInfo'', ''clGetProgramBuildInfo'',
       ''clReleaseCommandQueue'', ''clReleaseContext'', ''clReleaseEvent'',
       ''clReleaseKernel'', ''clReleaseMemObject'', ''clReleaseProgram'', ''clSetKernelArg'',
       ''clWaitForEvents'', ''clGetExtensionFunctionAddressForPlatform''}
   \<and> distinct (map sym_name (translation_unit :: ('a, 's) fun_def list))
   \<and> length (translation_unit :: ('a, 's) fun_def list) = 35
   \<and> (\<forall>n \<in> dom (lookup_symbol :: string \<Rightarrow> ('a, 's) fun_def option).
        \<exists>d. lookup_symbol n = Some d \<and> sym_name d = n
          \<and> (\<exists>r. impl d (args :: 'a list) (s :: 's) = Some r))"
proof (intro conjI ballI)
  show "dom (lookup_symbol :: string \<Rightarrow> ('a, 's) fun_def option) =
      {''clBuildProgram'', ''clCreateBuffer'', ''clCreateCommandQueue'', ''clCreateContext'',
       ''clCreateImage'', ''clCreateKernel'', ''clCreateProgramWithSource'',
       ''clCreateSubBuffer'', ''clEnqueueBarrierWithWaitList'', ''clEnqueueCopyBuffer'',
       ''clEnqueueFillBuffer'', ''clEnqueueMarkerWithWaitList'', ''clEnqueueNDRangeKernel'',
       ''clEnqueueReadBuffer'', ''clEnqueueWriteBuffer'', ''clFinish'', ''clFlush'',
       ''clGetDeviceIDs'', ''clGetDeviceInfo'', ''clGetEventProfilingInfo'',
       ''clGetKernelInfo'', ''clGetKernelSubGroupInfo'', ''clGetKernelWorkGroupInfo'',
       ''clGetPlatformIDs'', ''clGetPlatformInfo'', ''clGetProgramBuildInfo'',
       ''clReleaseCommandQueue'', ''clReleaseContext'', ''clReleaseEvent'',
       ''clReleaseKernel'', ''clReleaseMemObject'', ''clReleaseProgram'', ''clSetKernelArg'',
       ''clWaitForEvents'', ''clGetExtensionFunctionAddressForPlatform''}"
    unfolding dom_lookup_symbol symbol_names by simp
  show "distinct (map sym_name (translation_unit :: ('a, 's) fun_def list))"
    by (rule distinct_symbol_names)
  show "length (translation_unit :: ('a, 's) fun_def list) = 35"
    unfolding translation_unit_def by simp
next
  fix n
  assume "n \<in> dom (lookup_symbol :: string \<Rightarrow> ('a, 's) fun_def option)"
  then obtain d :: "('a, 's) fun_def" where d: "lookup_symbol n = Some d"
    by blast
  from lookup_symbol_SomeD [OF d] have "d \<in> set translation_unit" and "sym_name d = n"
    by simp_all
  with d show "\<exists>d. lookup_symbol n = Some d \<and> sym_name d = n
      \<and> (\<exists>r. impl d args s = Some r)"
    by (auto simp: stub_returns_same_state)
qed

theorem defined_symbols_exact_witness:
  "''clGetPlatformIDs'' \<in> dom (lookup_symbol :: string \<Rightarrow> (int, nat) fun_def option)
   \<and> (\<exists>d. lookup_symbol ''clGetPlatformIDs'' = Some d \<and> sym_name d = ''clGetPlatformIDs''
          \<and> (\<exists>r. impl d [1, 0, 0 :: int] (5 :: nat) = Some r))
   \<and> ''clgetplatformids'' \<notin> dom (lookup_symbol :: string \<Rightarrow> (int, nat) fun_def option)
   \<and> ''clCreatePipe'' \<notin> dom (lookup_symbol :: string \<Rightarrow> (int, nat) fun_def option)"
proof -
  note t = defined_symbols_exact [of "[1, 0, 0 :: int]" "5 :: nat"]
  note names = t [THEN conjunct1]
  note callable = t [THEN conjunct2, THEN conjunct2, THEN conjunct2]
  have m: "''clGetPlatformIDs'' \<in> dom (lookup_symbol :: string \<Rightarrow> (int, nat) fun_def option)"
    unfolding names by simp
  have c: "\<exists>d. lookup_symbol ''clGetPlatformIDs'' = Some d \<and> sym_name d = ''clGetPlatformIDs''
          \<and> (\<exists>r. impl d [1, 0, 0 :: int] (5 :: nat) = Some r)"
    using callable m by (rule bspec)
  have n1: "''clgetplatformids'' \<notin> dom (lookup_symbol :: string \<Rightarrow> (int, nat) fun_def option)"
    unfolding names by simp
  have n2: "''clCreatePipe'' \<notin> dom (lookup_symbol :: string \<Rightarrow> (int, nat) fun_def option)"
    unfolding names by simp
  from m c n1 n2 show ?thesis by blast
qed

subsection \<open>Invariants\<close>

text \<open>
  C5. The file has no state of its own, and every property of the program state is
  kept by every stub: if \<open>P\<close> holds of the state before a call of a function of the
  file, the call returns and \<open>P\<close> holds of the state after it.
\<close>

theorem stub_call_preserves:
  assumes "d \<in> set translation_unit" and "P s"
  shows "\<exists>r s'. impl d args s = Some (r, s') \<and> P s'"
  using assms by (simp add: stub_returns_same_state)

theorem stub_call_preserves_witness:
  "\<lparr>sym_name = ''clSetKernelArg'', ret_type = Void, impl = clSetKernelArg\<rparr>
      \<in> set (translation_unit :: (nat, nat list) fun_def list)
   \<and> sum_list [10, 20, 30 :: nat] = 60
   \<and> (\<exists>r s'. clSetKernelArg [0, 8 :: nat] [10, 20, 30 :: nat] = Some (r, s') \<and> sum_list s' = 60)"
proof -
  have h: "\<lparr>sym_name = ''clSetKernelArg'', ret_type = Void, impl = clSetKernelArg\<rparr>
      \<in> set (translation_unit :: (nat, nat list) fun_def list)"
    by (simp add: translation_unit_def)
  have p: "sum_list [10, 20, 30 :: nat] = 60"
    by simp
  show ?thesis
    using h p stub_call_preserves [OF h, where P = "\<lambda>s. sum_list s = 60", OF p, of "[0, 8]"]
    by simp
qed

subsection \<open>Algebra of calls\<close>

text \<open>
  C6. Every stub is idempotent: calling a function of the file twice in a row gives the
  same result and the same final state as calling it once.
\<close>

theorem stub_call_idempotent:
  assumes "d \<in> set translation_unit"
  shows "seq_calls (impl d args) (impl d args) s = impl d args s"
  using assms by (simp add: seq_calls_stubs stub_returns_same_state)

theorem stub_call_idempotent_witness:
  "\<lparr>sym_name = ''clFlush'', ret_type = Void, impl = clFlush\<rparr>
      \<in> set (translation_unit :: (int, int \<times> int) fun_def list)
   \<and> seq_calls (clFlush [7 :: int]) (clFlush [7 :: int]) (1 :: int, 2 :: int)
     = clFlush [7 :: int] (1 :: int, 2 :: int)"
proof -
  have h: "\<lparr>sym_name = ''clFlush'', ret_type = Void, impl = clFlush\<rparr>
      \<in> set (translation_unit :: (int, int \<times> int) fun_def list)"
    by (simp add: translation_unit_def)
  show ?thesis
    using h stub_call_idempotent [OF h, of "[7]" "(1, 2)"] by simp
qed

text \<open>
  C7. Any two stub calls commute: for two functions of the file, with any arguments,
  running one and then the other gives the same outcome, final state included, as
  running them in the other order.
\<close>

theorem stub_calls_commute:
  assumes "d \<in> set translation_unit" and "e \<in> set translation_unit"
  shows "seq_calls (impl d a) (impl e b) s = seq_calls (impl e b) (impl d a) s"
  using assms by (simp add: seq_calls_stubs)

theorem stub_calls_commute_witness:
  "\<lparr>sym_name = ''clEnqueueNDRangeKernel'', ret_type = Void, impl = clEnqueueNDRangeKernel\<rparr>
      \<in> set (translation_unit :: (int, nat list) fun_def list)
   \<and> \<lparr>sym_name = ''clWaitForEvents'', ret_type = Void, impl = clWaitForEvents\<rparr>
      \<in> set (translation_unit :: (int, nat list) fun_def list)
   \<and> seq_calls (clEnqueueNDRangeKernel [1, 2, 3 :: int]) (clWaitForEvents [1 :: int]) [4, 5 :: nat]
     = seq_calls (clWaitForEvents [1 :: int]) (clEnqueueNDRangeKernel [1, 2, 3 :: int]) [4, 5 :: nat]"
proof -
  have h1: "\<lparr>sym_name = ''clEnqueueNDRangeKernel'', ret_type = Void, impl = clEnqueueNDRangeKernel\<rparr>
      \<in> set (translation_unit :: (int, nat list) fun_def list)"
    by (simp add: translation_unit_def)
  have h2: "\<lparr>sym_name = ''clWaitForEvents'', ret_type = Void, impl = clWaitForEvents\<rparr>
      \<in> set (translation_unit :: (int, nat list) fun_def list)"
    by (simp add: translation_unit_def)
  show ?thesis
    using h1 h2 stub_calls_commute [OF h1 h2, of "[1, 2, 3]" "[1]" "[4, 5]"] by simp
qed

subsection \<open>Independence of the arguments\<close>

text \<open>
  C8. A stub ignores its arguments: two calls of the same function of the file in the
  same state, with argument lists that may differ in length and content, give the same
  result and the same final state.
\<close>

theorem stub_call_ignores_arguments:
  assumes "d \<in> set translation_unit"
  shows "impl d args1 s = impl d args2 s"
  using assms by (simp add: stub_returns_same_state)

theorem stub_call_ignores_arguments_witness:
  "\<lparr>sym_name = ''clGetDeviceInfo'', ret_type = Void, impl = clGetDeviceInfo\<rparr>
      \<in> set (translation_unit :: (int, nat) fun_def list)
   \<and> clGetDeviceInfo [4096, 8, 0 :: int] (9 :: nat) = clGetDeviceInfo ([] :: int list) (9 :: nat)"
proof -
  have h: "\<lparr>sym_name = ''clGetDeviceInfo'', ret_type = Void, impl = clGetDeviceInfo\<rparr>
      \<in> set (translation_unit :: (int, nat) fun_def list)"
    by (simp add: translation_unit_def)
  show ?thesis
    using h stub_call_ignores_arguments [OF h, of "[4096, 8, 0]" 9 "[]"] by simp
qed

subsection \<open>Return type\<close>

text \<open>
  C9. Every function of the file is declared \<^verbatim>\<open>void\<close>, not an integer status and not
  a pointer (a handle), and a call returns the unit value: no status code and no handle
  comes back from any stub.
\<close>

theorem stub_returns_void:
  assumes "d \<in> set translation_unit"
  shows "ret_type d = Void \<and> ret_type d \<noteq> Integer \<and> (\<forall>t. ret_type d \<noteq> Pointer t)
    \<and> (\<exists>s'. impl d args s = Some ((), s'))"
  using assms by (simp add: stub_returns_same_state stub_declared_void)

theorem stub_returns_void_witness:
  "\<lparr>sym_name = ''clCreateBuffer'', ret_type = Void, impl = clCreateBuffer\<rparr>
      \<in> set (translation_unit :: (int, nat) fun_def list)
   \<and> ret_type (\<lparr>sym_name = ''clCreateBuffer'', ret_type = Void, impl = clCreateBuffer\<rparr> :: (int, nat) fun_def) = Void
   \<and> (\<exists>s'. clCreateBuffer [1, 4, 1024, 0, 0 :: int] (3 :: nat) = Some ((), s'))"
proof -
  have h: "\<lparr>sym_name = ''clCreateBuffer'', ret_type = Void, impl = clCreateBuffer\<rparr>
      \<in> set (translation_unit :: (int, nat) fun_def list)"
    by (simp add: translation_unit_def)
  show ?thesis
    using h stub_returns_void [OF h, of "[1, 4, 1024, 0, 0]" 3] by simp
qed

subsection \<open>Create and release\<close>

text \<open>
  C10. Creating and releasing are both no-ops, so each create/release round trip is the
  identity on the state: a buffer, a context, a kernel, a program, a command queue. Each
  of the ten calls alone returns the state it was given, so whatever the state records
  about resources is the same before and after: nothing is acquired, nothing is freed.
\<close>

theorem create_release_identity:
  "seq_calls (clCreateBuffer a) (clReleaseMemObject b) s = Some ((), s)
   \<and> seq_calls (clCreateContext a) (clReleaseContext b) s = Some ((), s)
   \<and> seq_calls (clCreateKernel a) (clReleaseKernel b) s = Some ((), s)
   \<and> seq_calls (clCreateProgramWithSource a) (clReleaseProgram b) s = Some ((), s)
   \<and> seq_calls (clCreateCommandQueue a) (clReleaseCommandQueue b) s = Some ((), s)
   \<and> clCreateBuffer a s = Some ((), s) \<and> clReleaseMemObject b s = Some ((), s)
   \<and> clCreateContext a s = Some ((), s) \<and> clReleaseContext b s = Some ((), s)
   \<and> clCreateKernel a s = Some ((), s) \<and> clReleaseKernel b s = Some ((), s)
   \<and> clCreateProgramWithSource a s = Some ((), s) \<and> clReleaseProgram b s = Some ((), s)
   \<and> clCreateCommandQueue a s = Some ((), s) \<and> clReleaseCommandQueue b s = Some ((), s)"
  by (simp add: seq_calls_def clCreateBuffer_def clReleaseMemObject_def clCreateContext_def
      clReleaseContext_def clCreateKernel_def clReleaseKernel_def
      clCreateProgramWithSource_def clReleaseProgram_def clCreateCommandQueue_def
      clReleaseCommandQueue_def)

theorem create_release_identity_witness:
  "seq_calls (clCreateBuffer [1, 4, 1024 :: int]) (clReleaseMemObject [0 :: int]) [2, 3 :: nat]
     = Some ((), [2, 3 :: nat])
   \<and> seq_calls (clCreateKernel [6 :: int]) (clReleaseKernel [6 :: int]) [2, 3 :: nat]
     = Some ((), [2, 3 :: nat])"
  using create_release_identity [of "[1, 4, 1024 :: int]" "[0 :: int]" "[2, 3 :: nat]"]
    create_release_identity [of "[6 :: int]" "[6 :: int]" "[2, 3 :: nat]"]
  by simp

end
